theory Spec2Isabelle
  imports Main "HOL-Library.Sublist" "HOL-Library.Multiset"
begin

section \<open>Strings and paths\<close>

text \<open>
  Go strings are byte sequences; they are modelled as \<^typ>\<open>string\<close>. The helpers below
  embed the standard-library functions that \<open>command/install.go\<close> calls on strings
  and slash-separated paths.
\<close>

definition strings_Contains :: "string \<Rightarrow> char \<Rightarrow> bool" where
  "strings_Contains s c = (c \<in> set s)"

text \<open>\<open>strings.SplitN(s, sep, 2)\<close> for a one-byte separator that occurs in \<open>s\<close>.\<close>

definition strings_SplitN2 :: "string \<Rightarrow> char \<Rightarrow> string \<times> string" where
  "strings_SplitN2 s c = (takeWhile (\<lambda>x. x \<noteq> c) s, drop 1 (dropWhile (\<lambda>x. x \<noteq> c) s))"

definition strings_HasPrefix :: "string \<Rightarrow> string \<Rightarrow> bool" where
  "strings_HasPrefix s p = prefix p s"

definition strings_TrimPrefix :: "string \<Rightarrow> string \<Rightarrow> string" where
  "strings_TrimPrefix s p = (if strings_HasPrefix s p then drop (length p) s else s)"

text \<open>\<open>strings.Index(s, c)\<close> for a one-byte needle: \<open>-1\<close> when it does not occur.\<close>

definition strings_Index :: "string \<Rightarrow> char \<Rightarrow> int" where
  "strings_Index s c = (if c \<in> set s then int (length (takeWhile (\<lambda>x. x \<noteq> c) s)) else - 1)"

fun strings_Join :: "string list \<Rightarrow> string \<Rightarrow> string" where
  "strings_Join [] sep = []"
| "strings_Join [x] sep = x"
| "strings_Join (x # y # ys) sep = x @ sep @ strings_Join (y # ys) sep"

text \<open>The pieces of a string between the occurrences of a separator byte.\<close>

fun split_on :: "char \<Rightarrow> string \<Rightarrow> string list" where
  "split_on sep [] = [[]]"
| "split_on sep (c # cs) =
     (if c = sep then [] # split_on sep cs
      else (case split_on sep cs of [] \<Rightarrow> [[c]] | s # ss \<Rightarrow> (c # s) # ss))"

text \<open>
  \<open>path.Clean\<close> works through the elements of a path from left to right: an empty
  element and \<open>.\<close> are dropped, \<open>..\<close> removes the element before it when there is
  one (a rooted path drops it otherwise, a relative path keeps it), any other element is
  kept. \<open>clean_step\<close> is one such step on the elements kept so far.
\<close>

definition clean_step :: "bool \<Rightarrow> string list \<Rightarrow> string \<Rightarrow> string list" where
  "clean_step rooted st seg =
     (if seg = [] \<or> seg = ''.'' then st
      else if seg = ''..'' then
        (if st \<noteq> [] \<and> last st \<noteq> ''..'' then butlast st
         else if rooted then st else st @ [seg])
      else st @ [seg])"

type_synonym pathkey = "bool \<times> string list"

text \<open>
  A path resolved to its normal form: whether it is rooted, and the elements that
  \<open>path.Clean\<close> keeps. Two path strings name the same file exactly when their keys agree.
\<close>

definition is_rooted :: "string \<Rightarrow> bool" where
  "is_rooted p = (case p of [] \<Rightarrow> False | c # _ \<Rightarrow> c = CHR ''/'')"

definition path_key :: "string \<Rightarrow> pathkey" where
  "path_key p = (is_rooted p, foldl (clean_step (is_rooted p)) [] (split_on CHR ''/'' p))"

definition render :: "pathkey \<Rightarrow> string" where
  "render k =
     (case k of (rooted, st) \<Rightarrow>
        if rooted then CHR ''/'' # strings_Join st ''/''
        else if st = [] then ''.'' else strings_Join st ''/'')"

definition path_Clean :: "string \<Rightarrow> string" where
  "path_Clean p = render (path_key p)"

text \<open>\<open>path.Join(a, b)\<close>: empty elements are ignored, the result is cleaned.\<close>

definition path_Join :: "string \<Rightarrow> string \<Rightarrow> string" where
  "path_Join a b =
     (if a \<noteq> [] then path_Clean (a @ ''/'' @ b)
      else if b \<noteq> [] then path_Clean b
      else [])"

text \<open>\<open>path.Base\<close>: the last element, after trailing slashes are removed.\<close>

definition path_Base :: "string \<Rightarrow> string" where
  "path_Base p =
     (if p = [] then ''.''
      else let q = rev (dropWhile (\<lambda>c. c = CHR ''/'') (rev p));
               b = rev (takeWhile (\<lambda>c. c \<noteq> CHR ''/'') (rev q))
           in if b = [] then ''/'' else b)"

section \<open>Errors, the file system and the outside world\<close>

text \<open>A Go \<open>error\<close> value is its message; \<open>nil\<close> is \<open>None\<close> of \<open>error option\<close>.\<close>

datatype error = Err string

fun Error_msg :: "error \<Rightarrow> string" where
  "Error_msg (Err m) = m"

text \<open>
  A nil-pointer dereference or an out-of-range slice ends the program: a function that can
  panic returns \<open>Panic\<close> instead of a result.
\<close>

datatype 'a outcome = Panic | Ret 'a

text \<open>
  The file system maps resolved paths to nodes. A regular file carries its contents and
  its permission bits. The root and the working directory always exist.
\<close>

datatype node = Dir | File string nat

type_synonym filesystem = "pathkey \<Rightarrow> node option"

definition is_dir :: "filesystem \<Rightarrow> pathkey \<Rightarrow> bool" where
  "is_dir f k = (snd k = [] \<or> f k = Some Dir)"

definition is_file :: "filesystem \<Rightarrow> pathkey \<Rightarrow> bool" where
  "is_file f k = (case f k of Some (File _ _) \<Rightarrow> True | _ \<Rightarrow> False)"

text \<open>The path itself and the directories above it, outermost first.\<close>

definition ancestors :: "pathkey \<Rightarrow> pathkey list" where
  "ancestors k = map (\<lambda>i. (fst k, take i (snd k))) [1..<Suc (length (snd k))]"

definition parent :: "pathkey \<Rightarrow> pathkey" where
  "parent k = (fst k, butlast (snd k))"

text \<open>\<open>in_tree t k\<close>: \<open>k\<close> is \<open>t\<close> or lies in the tree rooted at \<open>t\<close>.\<close>

definition in_tree :: "pathkey \<Rightarrow> pathkey \<Rightarrow> bool" where
  "in_tree t k = (fst k = fst t \<and> prefix (snd t) (snd k))"

text \<open>
  \<open>os.MkdirAll\<close>: creates the directory and every missing directory above it; it fails,
  changing nothing, when one of them exists as a regular file.
\<close>

definition os_MkdirAll :: "filesystem \<Rightarrow> string \<Rightarrow> error option \<times> filesystem" where
  "os_MkdirAll f p =
     (let ks = ancestors (path_key p) in
      if \<exists>k \<in> set ks. is_file f k then (Some (Err (''mkdir '' @ p @ '': not a directory'')), f)
      else (None, (\<lambda>k. if k \<in> set ks then Some Dir else f k)))"

text \<open>
  \<open>os.OpenFile(p, O_WRONLY|O_CREATE|O_TRUNC, mode)\<close>: fails on a directory and when the
  directory above \<open>p\<close> does not exist; otherwise the file is created with \<open>mode\<close>, or
  truncated keeping its own mode.
\<close>

definition os_OpenFile :: "filesystem \<Rightarrow> string \<Rightarrow> nat \<Rightarrow> error + filesystem" where
  "os_OpenFile f p mode =
     (let k = path_key p in
      if is_dir f k then Inl (Err (''open '' @ p @ '': is a directory''))
      else if \<not> is_dir f (parent k) then Inl (Err (''open '' @ p @ '': no such file or directory''))
      else Inr (f(k := Some (File [] (case f k of Some (File _ m) \<Rightarrow> m | _ \<Rightarrow> mode)))))"

text \<open>Writing \<open>data\<close> to the open file at \<open>p\<close> (the target of \<open>io.Copy\<close>).\<close>

definition write_file :: "filesystem \<Rightarrow> string \<Rightarrow> string \<Rightarrow> filesystem" where
  "write_file f p data =
     (let k = path_key p in
      case f k of Some (File _ m) \<Rightarrow> f(k := Some (File data m)) | _ \<Rightarrow> f)"

text \<open>
  \<open>os.Stat\<close>: the three answers \<open>assertContentIsValid\<close> distinguishes. A path below a
  regular file is an error other than "does not exist".
\<close>

datatype stat = StatOk | StatNotExist | StatErr error

definition os_Stat :: "filesystem \<Rightarrow> string \<Rightarrow> stat" where
  "os_Stat f p =
     (let k = path_key p in
      if snd k = [] \<or> f k \<noteq> None then StatOk
      else if \<exists>a \<in> set (ancestors (parent k)). is_file f a
        then StatErr (Err (''stat '' @ p @ '': not a directory''))
      else StatNotExist)"

text \<open>
  \<open>os.Remove\<close>, whose error is never read: removes a regular file. (It would also remove
  an empty directory; the one path \<open>Install\<close> passes is the file that \<open>download\<close>
  created.)
\<close>

definition os_Remove :: "filesystem \<Rightarrow> string \<Rightarrow> filesystem" where
  "os_Remove f p = (let k = path_key p in if is_file f k then f(k := None) else f)"

text \<open>\<open>os.RemoveAll\<close>: removes the path and everything below it.\<close>

definition os_RemoveAll :: "filesystem \<Rightarrow> string \<Rightarrow> filesystem" where
  "os_RemoveAll f p = (\<lambda>k. if in_tree (path_key p) k then None else f k)"

text \<open>
  What a call leaves behind: the file system, and the requests and shell commands sent
  outside, oldest first.
\<close>

datatype event = HttpGet string "(string \<times> string) list" | Sh string

record world =
  fs :: filesystem
  events :: "event list"

text \<open>
  An HTTP response as \<open>download\<close> reads it: the status, the \<open>Location\<close> header, the
  body, and the error (if any) that ends the copy of the body.
\<close>

record response =
  StatusCode :: nat
  Location :: string
  Body :: string
  BodyErr :: "error option"

text \<open>
  An archive entry of \<open>archive/zip\<close>: its name, whether its external attributes mark a
  directory, its mode, and what opening and reading it gives.
\<close>

datatype zip_data = OpenFails error | CopyFails string error | Contents string

record zip_file =
  Name :: string
  ExtDir :: bool
  Perm :: nat
  Data :: zip_data

text \<open>
  The host: everything \<open>install.go\<close> asks of the operating system, the network and the
  configuration, whose answers the program does not control. \<open>TempFile\<close> and
  \<open>TempDir\<close> choose the name that \<open>ioutil\<close> creates; \<open>NewRequest_ok\<close> says whether
  \<open>http.NewRequest\<close> accepts a URL; \<open>RoundTrip\<close> answers one request; \<open>sh\<close> runs one
  \<open>sh -c\<close> command line; \<open>zip_parse\<close> reads the directory of a zip file.
\<close>

record sys =
  GOOS :: string
  cfg_Dir :: string
  TempFile :: "filesystem \<Rightarrow> error + string"
  TempDir :: "filesystem \<Rightarrow> error + string"
  NewRequest_ok :: "string \<Rightarrow> bool"
  RoundTrip :: "string \<Rightarrow> (string \<times> string) list \<Rightarrow> error + response"
  sh :: "string \<Rightarrow> filesystem \<Rightarrow> error option \<times> filesystem"
  zip_parse :: "string \<Rightarrow> error + zip_file list"

section \<open>Shell executor and validation\<close>

text \<open>\<open>executeInShell\<close>: runs the command lines in order and stops at the first failure.\<close>

fun executeInShell :: "sys \<Rightarrow> (string \<times> string) list \<Rightarrow> world \<Rightarrow> error option \<times> world" where
  "executeInShell s [] w = (None, w)"
| "executeInShell s (command # cmd) w =
     (let (err, f) = sh s (snd command) (fs w);
          w1 = w\<lparr>fs := f, events := events w @ [Sh (snd command)]\<rparr>
      in case err of
           Some e \<Rightarrow> (Some (Err ([CHR 0x27] @ snd command @ [CHR 0x27] @ '' failed: '' @ Error_msg e)), w1)
         | None \<Rightarrow> executeInShell s cmd w1)"

definition java_not_found :: error where
  "java_not_found =
     Err (''<target>/bin/java wasn'' @ [CHR 0x27] @ ''t found. '' @
       ''If you believe this is an error - please create a ticket at https://github.com/shyiko/jabba/issue '' @
       ''(specify OS and version/URL you tried to install)'')"

definition assertContentIsValid :: "filesystem \<Rightarrow> string \<Rightarrow> error option" where
  "assertContentIsValid f target =
     (case os_Stat f (target @ ''/bin/java'') of
        StatNotExist \<Rightarrow> Some java_not_found
      | StatErr e \<Rightarrow> Some e
      | StatOk \<Rightarrow> None)"

section \<open>Zip extraction\<close>

definition IsDir :: "zip_file \<Rightarrow> bool" where
  "IsDir f = (ExtDir f \<or> (Name f \<noteq> [] \<and> last (Name f) = CHR ''/''))"

text \<open>A Go map with its zero value for a missing key, as a list of distinct keys.\<close>

definition lookup :: "'b \<Rightarrow> (nat \<times> 'b) list \<Rightarrow> nat \<Rightarrow> 'b" where
  "lookup d m k = (case map_of m k of None \<Rightarrow> d | Some v \<Rightarrow> v)"

fun store :: "nat \<Rightarrow> 'b \<Rightarrow> (nat \<times> 'b) list \<Rightarrow> (nat \<times> 'b) list" where
  "store k v [] = [(k, v)]"
| "store k v (p # ps) = (if fst p = k then (k, v) # ps else p # store k v ps)"

text \<open>
  The first loop of \<open>unzip\<close>: one entry's update of \<open>entriesPerLevel\<close> and \<open>prefixMap\<close>.
\<close>

definition tally :: "(nat \<times> nat) list \<times> (nat \<times> string) list \<Rightarrow> zip_file \<Rightarrow>
    (nat \<times> nat) list \<times> (nat \<times> string) list" where
  "tally acc f =
     (case acc of (entriesPerLevel, prefixMap) \<Rightarrow>
        let slashes = length (filter (\<lambda>c. c = CHR ''/'') (Name f));
            level = (if \<not> IsDir f then slashes + 1 else slashes);
            prefixMap1 = (if \<not> IsDir f then prefixMap else store level (Name f) prefixMap)
        in (store level (lookup 0 entriesPerLevel level + 1) entriesPerLevel, prefixMap1))"

text \<open>
  The scan for the prefix: \<open>i\<close> runs below \<open>len(entriesPerLevel)\<close>, the number of
  distinct levels.
\<close>

definition prefixToStrip :: "zip_file list \<Rightarrow> string" where
  "prefixToStrip files =
     (case foldl tally ([], []) files of (entriesPerLevel, prefixMap) \<Rightarrow>
        (case find (\<lambda>i. lookup 0 entriesPerLevel i > 1 \<and> i > 0) [0..<length entriesPerLevel] of
           None \<Rightarrow> []
         | Some i \<Rightarrow> lookup [] prefixMap (i - 1)))"

text \<open>The second loop of \<open>unzip\<close>: writes the entries, stopping at the first error.\<close>

fun unzip_entries :: "string \<Rightarrow> string \<Rightarrow> zip_file list \<Rightarrow> filesystem \<Rightarrow> error option \<times> filesystem" where
  "unzip_entries target pre [] f = (None, f)"
| "unzip_entries target pre (e # es) f =
     (let name = strings_TrimPrefix (Name e) pre in
      if IsDir e then unzip_entries target pre es (snd (os_MkdirAll f (path_Join target name)))
      else
        (case Data e of
           OpenFails err \<Rightarrow> (Some err, f)
         | CopyFails part err \<Rightarrow>
             (case os_OpenFile f (path_Join target name) (Perm e) of
                Inl err1 \<Rightarrow> (Some err1, f)
              | Inr f1 \<Rightarrow> (Some err, write_file f1 (path_Join target name) part))
         | Contents c \<Rightarrow>
             (case os_OpenFile f (path_Join target name) (Perm e) of
                Inl err1 \<Rightarrow> (Some err1, f)
              | Inr f1 \<Rightarrow> unzip_entries target pre es (write_file f1 (path_Join target name) c))))"

definition zip_OpenReader :: "sys \<Rightarrow> filesystem \<Rightarrow> string \<Rightarrow> error + zip_file list" where
  "zip_OpenReader s f source =
     (case f (path_key source) of
        Some (File c _) \<Rightarrow> zip_parse s c
      | _ \<Rightarrow> Inl (Err (''open '' @ source @ '': no such file or directory'')))"

definition unzip :: "sys \<Rightarrow> string \<Rightarrow> string \<Rightarrow> bool \<Rightarrow> world \<Rightarrow> error option \<times> world" where
  "unzip s source target strip w =
     (case zip_OpenReader s (fs w) source of
        Inl err \<Rightarrow> (Some err, w)
      | Inr files \<Rightarrow>
          (let pre = (if strip then prefixToStrip files else []);
               (err, f) = unzip_entries target pre files (fs w)
           in (err, w\<lparr>fs := f\<rparr>)))"

definition installFromZip :: "sys \<Rightarrow> string \<Rightarrow> string \<Rightarrow> world \<Rightarrow> error option \<times> world" where
  "installFromZip s source target w = unzip s source target True w"

section \<open>Shell-based extractors\<close>

text \<open>\<open>ioutil.TempDir\<close>: the host chooses the name, the directory is created.\<close>

definition ioutil_TempDir :: "sys \<Rightarrow> world \<Rightarrow> (error + string) \<times> world" where
  "ioutil_TempDir s w =
     (case TempDir s (fs w) of
        Inl err \<Rightarrow> (Inl err, w)
      | Inr tmp \<Rightarrow> (Inr tmp, w\<lparr>fs := (fs w)(path_key tmp := Some Dir)\<rparr>))"

definition installFromDmg :: "sys \<Rightarrow> string \<Rightarrow> string \<Rightarrow> world \<Rightarrow> error option \<times> world" where
  "installFromDmg s source target w =
     (case ioutil_TempDir s w of
        (Inl err, w1) \<Rightarrow> (Some err, w1)
      | (Inr tmp, w1) \<Rightarrow>
          (let basename = path_Base source;
               mountpoint = tmp @ ''/'' @ basename;
               pkgdir = tmp @ ''/'' @ basename @ ''-pkg'';
               (err, w2) = executeInShell s
                 [(''Mounting '' @ source, ''hdiutil mount -mountpoint '' @ mountpoint @ '' '' @ source),
                  (''Extracting '' @ source @ '' to '' @ target,
                     ''pkgutil --expand '' @ mountpoint @ ''/*.pkg '' @ pkgdir),
                  ([], ''mkdir -p '' @ target),
                  ([],
                     ''if [ -f '' @ pkgdir @ ''/jdk*.pkg/Payload'' @ '' ]; then '' @
                     ''tar xvf '' @ pkgdir @ ''/jdk*.pkg/Payload -C '' @ target @
                     ''; fi''),
                  ([],
                     ''if [ -f '' @ pkgdir @ ''/JavaForOSX.pkg/Payload'' @ '' ]; then '' @
                     ''tar xzf '' @ pkgdir @ ''/JavaForOSX.pkg/Payload -C '' @ pkgdir @ '' &&'' @
                     ''mv '' @ pkgdir @ ''/Library/Java/JavaVirtualMachines/*/Contents '' @ target @ ''/Contents'' @
                     ''; fi''),
                  (''Unmounting '' @ source, ''hdiutil unmount '' @ mountpoint)] w1
           in (err, if err = None then w2\<lparr>fs := os_RemoveAll (fs w2) tmp\<rparr> else w2)))"

definition installFromBin :: "sys \<Rightarrow> string \<Rightarrow> string \<Rightarrow> world \<Rightarrow> error option \<times> world" where
  "installFromBin s source target w =
     (case ioutil_TempDir s w of
        (Inl err, w1) \<Rightarrow> (Some err, w1)
      | (Inr tmp, w1) \<Rightarrow>
          (let (err, w2) = executeInShell s
                 [([], ''mv '' @ source @ '' '' @ tmp),
                  (''Extracting '' @ path_Join tmp (path_Base source) @ '' to '' @ target,
                     ''cd '' @ tmp @ '' && echo | sh '' @ path_Base source @ '' && mv jdk*/ '' @ target)] w1
           in (err, if err = None then w2\<lparr>fs := os_RemoveAll (fs w2) tmp\<rparr> else w2)))"

definition installFromTgz :: "sys \<Rightarrow> string \<Rightarrow> string \<Rightarrow> world \<Rightarrow> error option \<times> world" where
  "installFromTgz s source target w =
     executeInShell s
       [([], ''mkdir -p '' @ target),
        (''Extracting '' @ source @ '' to '' @ target,
           ''tar xvf '' @ source @ '' --strip-components=1 -C '' @ target)] w"

section \<open>Platform installers\<close>

text \<open>
  Both platform installers return at once on a file type they do not know; otherwise they
  extract, validate when extraction succeeded, and remove the target tree when either
  step failed.
\<close>

definition installOnDarwin :: "sys \<Rightarrow> string \<Rightarrow> string \<Rightarrow> string \<Rightarrow> world \<Rightarrow> error option \<times> world" where
  "installOnDarwin s ver file fileType w =
     (let target = cfg_Dir s @ ''/jdk/'' @ ver in
      case (if fileType = ''dmg'' then Some (installFromDmg s file target w)
            else if fileType = ''zip'' then Some (installFromZip s file (target @ ''/Contents/Home'') w)
            else None) of
        None \<Rightarrow> (Some (Err (fileType @ '' is not supported'')), w)
      | Some (err, w1) \<Rightarrow>
          (let err1 = (if err = None then assertContentIsValid (fs w1) (target @ ''/Contents/Home'') else err)
           in (err1, if err1 \<noteq> None then w1\<lparr>fs := os_RemoveAll (fs w1) target\<rparr> else w1)))"

definition installOnLinux :: "sys \<Rightarrow> string \<Rightarrow> string \<Rightarrow> string \<Rightarrow> world \<Rightarrow> error option \<times> world" where
  "installOnLinux s ver file fileType w =
     (let target = cfg_Dir s @ ''/jdk/'' @ ver in
      case (if fileType = ''bin'' then Some (installFromBin s file target w)
            else if fileType = ''tgz'' then Some (installFromTgz s file target w)
            else if fileType = ''zip'' then Some (installFromZip s file target w)
            else None) of
        None \<Rightarrow> (Some (Err (fileType @ '' is not supported'')), w)
      | Some (err, w1) \<Rightarrow>
          (let err1 = (if err = None then assertContentIsValid (fs w1) target else err)
           in (err1, if err1 \<noteq> None then w1\<lparr>fs := os_RemoveAll (fs w1) target\<rparr> else w1)))"

section \<open>Download engine\<close>

text \<open>
  \<open>client.Do\<close> with the \<open>CheckRedirect\<close> of \<open>download\<close>: a response with one of the
  redirect statuses (301, 302, 303 and 307, the ones \<open>RedirectTracer\<close> logs) is
  followed to its \<open>Location\<close>, with the headers of the first request copied onto the
  new one, unless ten requests have been made already. \<open>n\<close> is the number of requests
  still allowed.
\<close>

definition is_redirect :: "nat \<Rightarrow> bool" where
  "is_redirect status = (status = 301 \<or> status = 302 \<or> status = 303 \<or> status = 307)"

fun client_Do :: "sys \<Rightarrow> nat \<Rightarrow> (string \<times> string) list \<Rightarrow> string \<Rightarrow> world \<Rightarrow> (error + response) \<times> world" where
  "client_Do s 0 hdr url w = (Inl (Err ''too many redirects''), w)"
| "client_Do s (Suc n) hdr url w =
     (let w1 = w\<lparr>events := events w @ [HttpGet url hdr]\<rparr> in
      case RoundTrip s url hdr of
        Inl err \<Rightarrow> (Inl err, w1)
      | Inr res \<Rightarrow>
          if is_redirect (StatusCode res) then client_Do s n hdr (Location res) w1
          else (Inr res, w1))"

definition cookie :: "(string \<times> string) list" where
  "cookie = [(''Cookie'', ''oraclelicense=accept-securebackup-cookie'')]"

text \<open>
  \<open>download\<close> returns its named results \<open>(file, err)\<close>. The error of
  \<open>http.NewRequest\<close> is never read: on a URL it rejects, the request is nil and setting
  its header panics. The copy of the body ends with the body's error, if it has one.
\<close>

definition download :: "sys \<Rightarrow> string \<Rightarrow> world \<Rightarrow> (string \<times> error option) outcome \<times> world" where
  "download s url w =
     (case TempFile s (fs w) of
        Inl err \<Rightarrow> (Ret ([], Some err), w)
      | Inr file \<Rightarrow>
          (let w1 = w\<lparr>fs := (fs w)(path_key file := Some (File [] 384))\<rparr> in
           if \<not> NewRequest_ok s url then (Panic, w1)
           else
             (case client_Do s 10 cookie url w1 of
                (Inl err, w2) \<Rightarrow> (Ret (file, Some err), w2)
              | (Inr res, w2) \<Rightarrow>
                  (Ret (file, BodyErr res), w2\<lparr>fs := write_file (fs w2) file (Body res)\<rparr>))))"

section \<open>Install orchestrator\<close>

text \<open>
  Package \<open>semver\<close> and the functions \<open>Ls\<close> and \<open>LsRemote\<close> are not part of
  \<open>install.go\<close>; \<open>Install\<close> is modelled over any implementation of them. \<open>'v\<close>
  stands for \<open>*semver.Version\<close> and \<open>'r\<close> for \<open>*semver.Range\<close>. A release map is the
  list of its entries in the order a \<open>range\<close> loop visits them; its keys are distinct.
\<close>

record ('v, 'r) collaborators =
  ParseVersion :: "string \<Rightarrow> error + 'v"
  ParseRange :: "string \<Rightarrow> error + 'r"
  Equals :: "'v \<Rightarrow> 'v \<Rightarrow> bool"
  LessThan :: "'v \<Rightarrow> 'v \<Rightarrow> bool"
  VString :: "'v \<Rightarrow> string"
  Contains :: "'r \<Rightarrow> 'v \<Rightarrow> bool"
  Ls :: "filesystem \<Rightarrow> error + 'v list"
  LsRemote :: "error + ('v \<times> string) list"

text \<open>
  \<open>sort.Sort\<close> as the insertion sort Go runs on short slices: each element moves left
  past every predecessor it is less than. On longer slices Go switches to an unstable
  algorithm, which returns the same slice whenever no two elements compare as equal.
\<close>

definition sort_insert :: "('a \<Rightarrow> 'a \<Rightarrow> bool) \<Rightarrow> 'a list \<Rightarrow> 'a \<Rightarrow> 'a list" where
  "sort_insert lt ys x =
     rev (dropWhile (lt x) (rev ys)) @ [x] @ rev (takeWhile (lt x) (rev ys))"

definition sort_Sort :: "('a \<Rightarrow> 'a \<Rightarrow> bool) \<Rightarrow> 'a list \<Rightarrow> 'a list" where
  "sort_Sort lt xs = foldl (sort_insert lt) [] xs"

text \<open>\<open>sort.Reverse(semver.VersionSlice(vs))\<close>: \<open>Less(i, j)\<close> is \<open>vs[j].LessThan(vs[i])\<close>.\<close>

definition sort_descending :: "('v, 'r) collaborators \<Rightarrow> 'v list \<Rightarrow> 'v list" where
  "sort_descending c vs = sort_Sort (\<lambda>a b. LessThan c b a) vs"


text \<open>\<open>releaseMap[ver]\<close>: the empty string for a missing key.\<close>

definition map_index :: "('v \<times> string) list \<Rightarrow> 'v \<Rightarrow> string" where
  "map_index m k = (case map_of m k of None \<Rightarrow> [] | Some u \<Rightarrow> u)"

text \<open>
  \<open>ver, _ = semver.ParseVersion(selector)\<close>: the version, or nil when the selector
  is not one.
\<close>

definition parsed_version :: "('v, 'r) collaborators \<Rightarrow> string \<Rightarrow> 'v option" where
  "parsed_version c selector = (case ParseVersion c selector of Inl _ \<Rightarrow> None | Inr ver \<Rightarrow> Some ver)"

text \<open>
  Lines 28 to 40: the selector after the split, the version it parses to (if any) and the
  one-entry release map of a pin.
\<close>

definition Install_parse :: "('v, 'r) collaborators \<Rightarrow> string \<Rightarrow>
    error + (string \<times> 'v option \<times> ('v \<times> string) list option)" where
  "Install_parse c selector =
     (if strings_Contains selector CHR ''=''
      then
        (let split = strings_SplitN2 selector CHR ''='' in
         case ParseVersion c (fst split) of
           Inl err \<Rightarrow> Inl err
         | Inr ver \<Rightarrow> Inr (fst split, Some ver, Some [(ver, snd split)]))
      else Inr (selector, parsed_version c selector, None))"

text \<open>Lines 42 to 52: \<open>Some r\<close> when \<open>Install\<close> returns \<open>r\<close> from this block.\<close>

definition Install_installed :: "('v, 'r) collaborators \<Rightarrow> filesystem \<Rightarrow> 'v option \<Rightarrow>
    (string \<times> error option) option" where
  "Install_installed c f ver =
     (case ver of
        None \<Rightarrow> None
      | Some v \<Rightarrow>
          (case Ls c f of
             Inl err \<Rightarrow> Some ([], Some err)
           | Inr local \<Rightarrow>
               if \<exists>x \<in> set local. Equals c v x then Some (VString c v, None) else None))"

text \<open>Lines 55 to 84: the resolution of a range over the remote release map.\<close>

definition Install_resolve :: "('v, 'r) collaborators \<Rightarrow> string \<Rightarrow> error + ('v \<times> ('v \<times> string) list)" where
  "Install_resolve c selector =
     (case ParseRange c selector of
        Inl err \<Rightarrow> Inl err
      | Inr rng \<Rightarrow>
          (case LsRemote c of
             Inl err \<Rightarrow> Inl err
           | Inr releaseMap \<Rightarrow>
               (let vs = sort_descending c (map fst releaseMap) in
                case find (Contains c rng) vs of
                  Some ver \<Rightarrow> Inr (ver, releaseMap)
                | None \<Rightarrow>
                    Inl (Err (''No compatible version found for '' @ selector @
                      [CHR 0x0A] @ ''Valid install targets: '' @
                      strings_Join (map (VString c) vs) '', '')))))"

text \<open>
  Lines 87 to 91: the qualifier check \<open>^\w+[+]\w+://\<close> and the split at the first
  \<open>+\<close>. \<open>\w\<close> is an ASCII letter, digit or underscore, so each \<open>\w+\<close> is the longest
  run of such bytes.
\<close>

definition is_word :: "char \<Rightarrow> bool" where
  "is_word ch =
     (let n = (of_char ch :: nat) in
      (48 \<le> n \<and> n \<le> 57) \<or> (65 \<le> n \<and> n \<le> 90) \<or> n = 95 \<or> (97 \<le> n \<and> n \<le> 122))"

definition matched :: "string \<Rightarrow> bool" where
  "matched url =
     (takeWhile is_word url \<noteq> [] \<and>
      (case dropWhile is_word url of
         [] \<Rightarrow> False
       | ch # rest \<Rightarrow>
           ch = CHR ''+'' \<and> takeWhile is_word rest \<noteq> [] \<and> prefix ''://'' (dropWhile is_word rest)))"

definition Install_source :: "string \<Rightarrow> (error + string \<times> string) outcome" where
  "Install_source url =
     (if \<not> matched url then Ret (Inl (Err ''URL must contain qualifier, e.g. tgz+http://...''))
      else
        (let i = strings_Index url CHR ''+'' in
         if i < 0 then Panic
         else Ret (Inr (take (nat i) url, drop (nat i + 1) url))))"

text \<open>Lines 92 to 103: the file to install from and \<open>deleteFileWhenFinnished\<close>.\<close>

definition Install_acquire :: "sys \<Rightarrow> string \<Rightarrow> world \<Rightarrow> (error + string \<times> bool) outcome \<times> world" where
  "Install_acquire s url w =
     (if strings_HasPrefix url ''file://'' then (Ret (Inr (strings_TrimPrefix url ''file://'', False)), w)
      else
        (case download s url w of
           (Panic, w1) \<Rightarrow> (Panic, w1)
         | (Ret (file, Some err), w1) \<Rightarrow> (Ret (Inl err), w1)
         | (Ret (file, None), w1) \<Rightarrow> (Ret (Inr (file, True)), w1)))"

text \<open>
  Lines 23 to 86: either \<open>Install\<close> returns here (\<open>Inl\<close>), or it has chosen a version
  and read \<open>url := releaseMap[ver]\<close>. The release map of a pin is never nil, so a pin
  skips the resolution.
\<close>

definition Install_select :: "('v, 'r) collaborators \<Rightarrow> string \<Rightarrow> filesystem \<Rightarrow>
    (string \<times> error option) + ('v \<times> string)" where
  "Install_select c selector0 f =
     (case Install_parse c selector0 of
        Inl err \<Rightarrow> Inl ([], Some err)
      | Inr (selector, ver0, releaseMap0) \<Rightarrow>
          (case Install_installed c f ver0 of
             Some r \<Rightarrow> Inl r
           | None \<Rightarrow>
               (case (case (releaseMap0, ver0) of
                        (Some m, Some v) \<Rightarrow> Inr (v, m)
                      | _ \<Rightarrow> Install_resolve c selector) of
                  Inl err \<Rightarrow> Inl ([], Some err)
                | Inr (ver, releaseMap) \<Rightarrow> Inr (ver, map_index releaseMap ver))))"

text \<open>
  Everything \<open>Install\<close> does before the switch on \<open>runtime.GOOS\<close>: either it has
  returned, or it goes on with the version, the file, the file type and the flag.
\<close>

datatype 'v prepared = Return "string \<times> error option" | Dispatch 'v string string bool

definition Install_prepare :: "('v, 'r) collaborators \<Rightarrow> sys \<Rightarrow> string \<Rightarrow> world \<Rightarrow>
    'v prepared outcome \<times> world" where
  "Install_prepare c s selector w =
     (case Install_select c selector (fs w) of
        Inl r \<Rightarrow> (Ret (Return r), w)
      | Inr (ver, url0) \<Rightarrow>
          (case Install_source url0 of
             Panic \<Rightarrow> (Panic, w)
           | Ret (Inl err) \<Rightarrow> (Ret (Return ([], Some err)), w)
           | Ret (Inr (fileType, url)) \<Rightarrow>
               (case Install_acquire s url w of
                  (Panic, w1) \<Rightarrow> (Panic, w1)
                | (Ret (Inl err), w1) \<Rightarrow> (Ret (Return ([], Some err)), w1)
                | (Ret (Inr (file, del)), w1) \<Rightarrow> (Ret (Dispatch ver file fileType del), w1))))"

text \<open>Lines 104 to 111: the switch on \<open>runtime.GOOS\<close>.\<close>

definition Install_platform :: "sys \<Rightarrow> string \<Rightarrow> string \<Rightarrow> string \<Rightarrow> world \<Rightarrow> error option \<times> world" where
  "Install_platform s ver file fileType w =
     (if GOOS s = ''darwin'' then installOnDarwin s ver file fileType w
      else if GOOS s = ''linux'' then installOnLinux s ver file fileType w
      else (Some (Err (GOOS s @ '' OS is not supported'')), w))"

text \<open>Lines 104 to 115: the platform installer, the cleanup of the download, the return.\<close>

definition Install_dispatch :: "sys \<Rightarrow> string \<Rightarrow> string \<Rightarrow> string \<Rightarrow> bool \<Rightarrow> world \<Rightarrow>
    (string \<times> error option) \<times> world" where
  "Install_dispatch s ver file fileType deleteFileWhenFinnished w =
     (case Install_platform s ver file fileType w of
        (err, w1) \<Rightarrow>
          ((ver, err),
           if err = None \<and> deleteFileWhenFinnished then w1\<lparr>fs := os_Remove (fs w1) file\<rparr> else w1))"

definition Install :: "('v, 'r) collaborators \<Rightarrow> sys \<Rightarrow> string \<Rightarrow> world \<Rightarrow>
    (string \<times> error option) outcome \<times> world" where
  "Install c s selector w =
     (case Install_prepare c s selector w of
        (Panic, w1) \<Rightarrow> (Panic, w1)
      | (Ret (Return r), w1) \<Rightarrow> (Ret r, w1)
      | (Ret (Dispatch ver file fileType del), w1) \<Rightarrow>
          (case Install_dispatch s (VString c ver) file fileType del w1 of
             (r, w2) \<Rightarrow> (Ret r, w2)))"

section \<open>The prefix scan as the specification words it\<close>

text \<open>
  The depth of an entry is the number of slash-terminated segments of its name, plus one
  for the own name of a file. The scan runs over every depth from 0 up to the deepest
  entry.
\<close>

definition spec_depth :: "zip_file \<Rightarrow> nat" where
  "spec_depth f = length (filter (\<lambda>c. c = CHR ''/'') (Name f)) + (if IsDir f then 0 else 1)"

definition spec_count :: "zip_file list \<Rightarrow> nat \<Rightarrow> nat" where
  "spec_count files d = length (filter (\<lambda>f. spec_depth f = d) files)"

definition spec_last_dir :: "zip_file list \<Rightarrow> nat \<Rightarrow> string" where
  "spec_last_dir files d =
     (case rev (filter (\<lambda>f. IsDir f \<and> spec_depth f = d) files) of
        [] \<Rightarrow> []
      | f # _ \<Rightarrow> Name f)"

definition spec_prefixToStrip :: "zip_file list \<Rightarrow> string" where
  "spec_prefixToStrip files =
     (case find (\<lambda>i. spec_count files i > 1 \<and> i > 0)
             [0..<Suc (foldr max (map spec_depth files) 0)] of
        None \<Rightarrow> []
      | Some i \<Rightarrow> spec_last_dir files (i - 1))"

section \<open>A version and range model for the examples\<close>

text \<open>
  Modelled from the spec: package \<open>semver\<close> (\<open>ParseVersion\<close>, \<open>ParseRange\<close>,
  \<open>Equals\<close>, \<open>LessThan\<close>, \<open>String\<close>, \<open>Contains\<close>) is not among the sources. A
  version is \<open>major.minor.patch\<close> and prints as it was written; versions are ordered
  by their numbers; equality is structural. Of the range expressions only the two that
  the examples use are modelled: a caret range \<open>^M.m.p\<close>, which holds the versions of
  major \<open>M\<close> from \<open>M.m.p\<close> on, and a plain version, which holds that version.
\<close>

datatype version = Version string nat nat nat

datatype range = Caret nat nat nat | Exactly nat nat nat

definition is_digit :: "char \<Rightarrow> bool" where
  "is_digit ch = (48 \<le> (of_char ch :: nat) \<and> (of_char ch :: nat) \<le> 57)"

definition parse_nat :: "string \<Rightarrow> nat option" where
  "parse_nat s =
     (if s \<noteq> [] \<and> list_all is_digit s
      then Some (foldl (\<lambda>n ch. 10 * n + (of_char ch - 48)) 0 s)
      else None)"

text \<open>
  Modelled from the spec: \<open>semver.ParseVersion\<close>, absent from the sources. It fails
  when the string is not three numbers separated by dots.
\<close>

definition spec_ParseVersion :: "string \<Rightarrow> error + version" where
  "spec_ParseVersion s =
     (case map parse_nat (split_on CHR ''.'' s) of
        [Some a, Some b, Some c] \<Rightarrow> Inr (Version s a b c)
      | _ \<Rightarrow> Inl (Err (''Invalid version: '' @ s)))"

text \<open>
  Modelled from the spec: \<open>semver.ParseRange\<close>, absent from the sources, for a caret
  range and for a plain version.
\<close>

definition spec_ParseRange :: "string \<Rightarrow> error + range" where
  "spec_ParseRange s =
     (case spec_ParseVersion (if take 1 s = ''^'' then drop 1 s else s) of
        Inl err \<Rightarrow> Inl err
      | Inr (Version _ a b c) \<Rightarrow> Inr (if take 1 s = ''^'' then Caret a b c else Exactly a b c))"

fun lt3 :: "nat \<Rightarrow> nat \<Rightarrow> nat \<Rightarrow> nat \<Rightarrow> nat \<Rightarrow> nat \<Rightarrow> bool" where
  "lt3 a b c a' b' c' = (a < a' \<or> (a = a' \<and> (b < b' \<or> (b = b' \<and> c < c'))))"

text \<open>
  Modelled from the spec: \<open>Version.LessThan\<close>, absent from the sources: the order of
  the numbers, major first.
\<close>

fun spec_LessThan :: "version \<Rightarrow> version \<Rightarrow> bool" where
  "spec_LessThan (Version _ a b c) (Version _ a' b' c') = lt3 a b c a' b' c'"

text \<open>
  Modelled from the spec: \<open>Version.String\<close>, absent from the sources: the string the
  version was parsed from.
\<close>

fun spec_String :: "version \<Rightarrow> string" where
  "spec_String (Version s _ _ _) = s"

text \<open>
  Modelled from the spec: \<open>Range.Contains\<close>, absent from the sources. \<open>^1.8.0\<close>
  holds the versions \<open>1.x.y\<close> that are not less than \<open>1.8.0\<close>.
\<close>

fun spec_Contains :: "range \<Rightarrow> version \<Rightarrow> bool" where
  "spec_Contains (Caret a b c) (Version _ a' b' c') = (a' = a \<and> \<not> lt3 a' b' c' a b c)"
| "spec_Contains (Exactly a b c) (Version _ a' b' c') = (a' = a \<and> b' = b \<and> c' = c)"

text \<open>Archive entries of the examples: a directory entry and a regular file.\<close>

definition dir_entry :: "string \<Rightarrow> zip_file" where
  "dir_entry n = \<lparr>Name = n, ExtDir = False, Perm = 493, Data = Contents []\<rparr>"

definition file_entry :: "string \<Rightarrow> string \<Rightarrow> zip_file" where
  "file_entry n c = \<lparr>Name = n, ExtDir = False, Perm = 420, Data = Contents c\<rparr>"

text \<open>The archives of the prefix-stripping examples, with the contents of their files.\<close>

definition wrapped_files_only :: "string \<Rightarrow> string \<Rightarrow> zip_file list" where
  "wrapped_files_only c1 c2 =
     [file_entry ''wrapper/bin/java'' c1, file_entry ''wrapper/lib/x.jar'' c2]"

definition wrapped_archive :: "string \<Rightarrow> string \<Rightarrow> zip_file list" where
  "wrapped_archive c1 c2 =
     [dir_entry ''wrapper/'', dir_entry ''wrapper/bin/'', file_entry ''wrapper/bin/java'' c1,
      dir_entry ''wrapper/lib/'', file_entry ''wrapper/lib/x.jar'' c2]"

definition two_top_archive :: "string \<Rightarrow> string \<Rightarrow> zip_file list" where
  "two_top_archive c1 c2 =
     [dir_entry ''a/'', file_entry ''a/file1'' c1, dir_entry ''b/'', file_entry ''b/file2'' c2]"

text \<open>The collaborators of the examples: a list of installed versions and a catalog.\<close>

definition example_collaborators :: "version list \<Rightarrow> (version \<times> string) list \<Rightarrow>
    (version, range) collaborators" where
  "example_collaborators installed catalog =
     \<lparr>ParseVersion = spec_ParseVersion, ParseRange = spec_ParseRange,
      Equals = (\<lambda>v u. v = u), LessThan = spec_LessThan, VString = spec_String,
      Contains = spec_Contains, Ls = (\<lambda>f. Inr installed), LsRemote = Inr catalog\<rparr>"

text \<open>
  A Linux host for the examples, with the install root \<open>/home/u/.jabba\<close>. Its shell
  knows the commands the examples run: \<open>mkdir -p\<close> of the target of version 1.8.0 and
  a \<open>tar\<close> that unpacks a single \<open>README\<close> there; \<open>mkdir -p\<close> of the target of
  version 1.8.1 and a \<open>tar\<close> of the downloaded file that unpacks \<open>bin/java\<close> there;
  and for the self-extracting binary the \<open>mv\<close> of the source into the scratch
  directory and the run that leaves the JDK in the target of version 1.7.0. Any other
  command fails. Its network serves the archive of version 1.8.1 and answers 404 to
  every other request.
\<close>

definition example_sh :: "string \<Rightarrow> filesystem \<Rightarrow> error option \<times> filesystem" where
  "example_sh cmd f =
     (if cmd = ''mkdir -p /home/u/.jabba/jdk/1.8.0''
      then (None, snd (os_MkdirAll f ''/home/u/.jabba/jdk/1.8.0''))
      else if cmd = ''tar xvf /tmp/fake.tgz --strip-components=1 -C /home/u/.jabba/jdk/1.8.0''
      then (None, f(path_key ''/home/u/.jabba/jdk/1.8.0/README'' := Some (File ''readme'' 420)))
      else if cmd = ''mkdir -p /home/u/.jabba/jdk/1.8.1''
      then (None, snd (os_MkdirAll f ''/home/u/.jabba/jdk/1.8.1''))
      else if cmd = ''tar xvf /tmp/jabba-d-1 --strip-components=1 -C /home/u/.jabba/jdk/1.8.1''
      then (None, (snd (os_MkdirAll f ''/home/u/.jabba/jdk/1.8.1/bin''))
                    (path_key ''/home/u/.jabba/jdk/1.8.1/bin/java'' := Some (File ''java'' 493)))
      else if cmd = ''mv /home/u/jdk.bin /tmp/jabba-i-1''
      then (None, f(path_key ''/home/u/jdk.bin'' := None,
                    path_key ''/tmp/jabba-i-1/jdk.bin'' := f (path_key ''/home/u/jdk.bin'')))
      else if cmd = ''cd /tmp/jabba-i-1 && echo | sh jdk.bin && mv jdk*/ /home/u/.jabba/jdk/1.7.0''
      then (None, (snd (os_MkdirAll f ''/home/u/.jabba/jdk/1.7.0/bin''))
                    (path_key ''/home/u/.jabba/jdk/1.7.0/bin/java'' := Some (File ''java'' 493)))
      else (Some (Err ''exit status 127''), f))"

definition example_sys :: sys where
  "example_sys =
     \<lparr>GOOS = ''linux'', cfg_Dir = ''/home/u/.jabba'',
      TempFile = (\<lambda>f. Inr ''/tmp/jabba-d-1''), TempDir = (\<lambda>f. Inr ''/tmp/jabba-i-1''),
      NewRequest_ok = (\<lambda>url. True),
      RoundTrip = (\<lambda>url hdr.
        if url = ''http://host/jdk-1.8.1.tgz''
        then Inr \<lparr>StatusCode = 200, Location = [], Body = ''jdk-1.8.1'', BodyErr = None\<rparr>
        else Inr \<lparr>StatusCode = 404, Location = [], Body = ''Not Found'', BodyErr = None\<rparr>),
      sh = example_sh,
      zip_parse = (\<lambda>data.
        if data = ''wrapped'' then Inr (wrapped_archive ''ELF'' ''PK'')
        else if data = ''bare'' then Inr (wrapped_files_only ''ELF'' ''PK'')
        else if data = ''two'' then Inr (two_top_archive ''1'' ''2'')
        else Inl (Err ''zip: not a valid zip file''))\<rparr>"

text \<open>The file system of the examples: the local archives, nothing installed.\<close>

definition example_world :: world where
  "example_world =
     \<lparr>fs = (\<lambda>k. None)(path_key ''/home/u/jdk.bin'' := Some (File ''#!/bin/sh'' 493),
                        path_key ''/tmp/fake.tgz'' := Some (File ''tgz'' 420),
                        path_key ''/tmp/wrapped.zip'' := Some (File ''wrapped'' 420),
                        path_key ''/tmp/bare.zip'' := Some (File ''bare'' 420),
                        path_key ''/tmp/two.zip'' := Some (File ''two'' 420)),
      events = []\<rparr>"


definition v180 :: version where "v180 = Version ''1.8.0'' 1 8 0"
definition v181 :: version where "v181 = Version ''1.8.1'' 1 8 1"
definition v900 :: version where "v900 = Version ''9.0.0'' 9 0 0"

definition example_catalog :: "(version \<times> string) list" where
  "example_catalog =
     [(v180, ''tgz+http://host/jdk-1.8.0.tgz''),
      (v900, ''tgz+http://host/jdk-9.0.0.tgz''),
      (v181, ''tgz+http://host/jdk-1.8.1.tgz'')]"



section \<open>Properties of the zip prefix scan\<close>

lemmas zip_eval = prefixToStrip_def tally_def lookup_def IsDir_def dir_entry_def file_entry_def
  spec_prefixToStrip_def spec_count_def spec_depth_def spec_last_dir_def

lemma lookup_store: "lookup d (store k v m) k' = (if k' = k then v else lookup d m k')"
  by (induction m) (auto simp: lookup_def)

lemma keys_store: "fst ` set (store k v m) = insert k (fst ` set m)"
  by (induction m) auto

lemma distinct_store: "distinct (map fst m) \<Longrightarrow> distinct (map fst (store k v m))"
proof (induction m)
  case Nil
  then show ?case by simp
next
  case (Cons p m)
  have "fst p \<notin> fst ` set (store k v m)" if "fst p \<noteq> k"
    using that Cons.prems by (simp add: keys_store)
  with Cons show ?case by auto
qed

lemma tally_level:
  "tally (E, P) f =
     (store (spec_depth f) (lookup 0 E (spec_depth f) + 1) E,
      if IsDir f then store (spec_depth f) (Name f) P else P)"
  by (simp add: tally_def spec_depth_def Let_def)

text \<open>
  What the first loop of \<open>unzip\<close> has computed: one key for every depth that occurs,
  the number of entries at each depth, and the last directory entry at each depth.
\<close>

lemma tally_invariant:
  "distinct (map fst (fst (foldl tally ([], []) files)))
   \<and> fst ` set (fst (foldl tally ([], []) files)) = spec_depth ` set files
   \<and> (\<forall>d. lookup 0 (fst (foldl tally ([], []) files)) d = spec_count files d)
   \<and> (\<forall>d. lookup [] (snd (foldl tally ([], []) files)) d = spec_last_dir files d)"
proof (induction files rule: rev_induct)
  case Nil
  then show ?case by (simp add: lookup_def spec_count_def spec_last_dir_def)
next
  case (snoc f files)
  obtain E P where acc: "foldl tally ([], []) files = (E, P)"
    by (cases "foldl tally ([], []) files")
  with snoc have d: "distinct (map fst E)" and k: "fst ` set E = spec_depth ` set files"
    and c: "\<And>d. lookup 0 E d = spec_count files d"
    and p: "\<And>d. lookup [] P d = spec_last_dir files d"
    by simp_all
  have step: "foldl tally ([], []) (files @ [f]) =
      (store (spec_depth f) (lookup 0 E (spec_depth f) + 1) E,
       if IsDir f then store (spec_depth f) (Name f) P else P)"
    by (simp add: acc tally_level)
  have 1: "distinct (map fst (fst (foldl tally ([], []) (files @ [f]))))"
    unfolding step by (simp add: distinct_store d)
  have 2: "fst ` set (fst (foldl tally ([], []) (files @ [f]))) = spec_depth ` set (files @ [f])"
    unfolding step by (simp add: keys_store k)
  have 3: "lookup 0 (fst (foldl tally ([], []) (files @ [f]))) d = spec_count (files @ [f]) d" for d
    unfolding step by (simp add: lookup_store c spec_count_def)
  have 4: "lookup [] (snd (foldl tally ([], []) (files @ [f]))) d = spec_last_dir (files @ [f]) d" for d
    unfolding step by (simp add: lookup_store p spec_last_dir_def)
  from 1 2 3 4 show ?case by blast
qed

lemma length_entriesPerLevel:
  "length (fst (foldl tally ([], []) files)) = card (spec_depth ` set files)"
proof -
  let ?E = "fst (foldl tally ([], []) files)"
  have "distinct (map fst ?E)" and "set (map fst ?E) = spec_depth ` set files"
    using tally_invariant [of files] by simp_all
  then show ?thesis
    using distinct_card [of "map fst ?E"] by simp
qed

text \<open>
  The scan of the code is the scan of the specification, cut off at the number of
  distinct depths.
\<close>

lemma prefixToStrip_scan:
  "prefixToStrip files =
     (case find (\<lambda>i. spec_count files i > 1 \<and> i > 0) [0..<card (spec_depth ` set files)] of
        None \<Rightarrow> []
      | Some i \<Rightarrow> spec_last_dir files (i - 1))"
proof -
  obtain E P where acc: "foldl tally ([], []) files = (E, P)"
    by (cases "foldl tally ([], []) files")
  have c: "lookup 0 E d = spec_count files d" and p: "lookup [] P d = spec_last_dir files d" for d
    using tally_invariant [of files] by (simp_all add: acc)
  have l: "length E = card (spec_depth ` set files)"
    using length_entriesPerLevel [of files] by (simp add: acc)
  show ?thesis by (simp add: prefixToStrip_def acc c p l cong: option.case_cong)
qed

text \<open>
  Claim C2. With stripping enabled, the scan for the prefix covers every depth: at the
  first depth \<open>i > 0\<close> that holds more than one entry, the directory name recorded at
  depth \<open>i - 1\<close> is stripped. The code computes the depths, the counts and the recorded
  directory names as the claim says, but its scan stops at the number of distinct
  depths, not at the deepest one. For the archive \<open>w/\<close>, \<open>w/a\<close>, \<open>w/b\<close> the entries
  lie at the depths 1 and 2; the loop bound \<open>len(entriesPerLevel)\<close> is 2, so \<open>i\<close> takes
  the values 0 and 1 only and depth 2, the one with two entries, is never looked at:
  the code strips nothing, where the scan of the specification strips \<open>w/\<close>.
\<close>

theorem C2_scan_stops_below_deepest_level:
  "prefixToStrip files =
     (case find (\<lambda>i. spec_count files i > 1 \<and> i > 0) [0..<card (spec_depth ` set files)] of
        None \<Rightarrow> []
      | Some i \<Rightarrow> spec_last_dir files (i - 1))
   \<and> prefixToStrip [dir_entry ''w/'', file_entry ''w/a'' ''A'', file_entry ''w/b'' ''B''] = []
   \<and> spec_prefixToStrip [dir_entry ''w/'', file_entry ''w/a'' ''A'', file_entry ''w/b'' ''B''] = ''w/''"
proof (intro conjI)
  show "prefixToStrip files =
     (case find (\<lambda>i. spec_count files i > 1 \<and> i > 0) [0..<card (spec_depth ` set files)] of
        None \<Rightarrow> []
      | Some i \<Rightarrow> spec_last_dir files (i - 1))"
    by (rule prefixToStrip_scan)
  show "prefixToStrip [dir_entry ''w/'', file_entry ''w/a'' ''A'', file_entry ''w/b'' ''B''] = []"
    by (simp add: zip_eval)
  show "spec_prefixToStrip [dir_entry ''w/'', file_entry ''w/a'' ''A'', file_entry ''w/b'' ''B''] = ''w/''"
    by (simp add: zip_eval upt_rec)
qed

section \<open>Evaluation rules\<close>

lemmas path_eval = path_key_def is_rooted_def clean_step_def render_def path_Clean_def
  path_Join_def path_Base_def

lemmas os_eval = os_MkdirAll_def os_OpenFile_def write_file_def os_Stat_def os_Remove_def
  os_RemoveAll_def is_dir_def is_file_def ancestors_def parent_def in_tree_def

lemmas semver_eval = example_collaborators_def spec_ParseVersion_def spec_ParseRange_def
  parse_nat_def is_digit_def v180_def v181_def v900_def example_catalog_def

lemmas select_eval = Install_select_def Install_parse_def Install_installed_def
  Install_resolve_def parsed_version_def map_index_def sort_descending_def sort_Sort_def
  sort_insert_def strings_Contains_def strings_SplitN2_def

lemmas source_eval = Install_source_def Install_acquire_def matched_def is_word_def
  strings_HasPrefix_def strings_TrimPrefix_def strings_Index_def

lemmas platform_eval = Install_platform_def installOnLinux_def installOnDarwin_def
  installFromTgz_def installFromBin_def installFromDmg_def installFromZip_def
  ioutil_TempDir_def assertContentIsValid_def example_sys_def example_sh_def
  example_world_def

section \<open>Paths and their keys\<close>

























section \<open>The qualifier pattern\<close>

lemma not_word_plus: "\<not> is_word CHR ''+''"
  by (simp add: is_word_def)

lemma not_word_colon: "\<not> is_word CHR '':''"
  by (simp add: is_word_def)

lemma takeWhile_run: "list_all P a \<Longrightarrow> \<not> P x \<Longrightarrow> takeWhile P (a @ x # r) = a"
  by (induction a) auto

lemma dropWhile_run: "list_all P a \<Longrightarrow> \<not> P x \<Longrightarrow> dropWhile P (a @ x # r) = x # r"
  by (induction a) auto

lemma matched_intro:
  assumes "a \<noteq> []" "b \<noteq> []" "list_all is_word a" "list_all is_word b"
  shows "matched (a @ ''+'' @ b @ ''://'' @ rest)"
proof -
  have 1: "takeWhile is_word (a @ CHR ''+'' # b @ ''://'' @ rest) = a"
    using assms(3) not_word_plus by (rule takeWhile_run)
  have 2: "dropWhile is_word (a @ CHR ''+'' # b @ ''://'' @ rest) = CHR ''+'' # b @ ''://'' @ rest"
    using assms(3) not_word_plus by (rule dropWhile_run)
  have 3: "takeWhile is_word (b @ CHR '':'' # ''//'' @ rest) = b"
    using assms(4) not_word_colon by (rule takeWhile_run)
  have 4: "dropWhile is_word (b @ CHR '':'' # ''//'' @ rest) = CHR '':'' # ''//'' @ rest"
    using assms(4) not_word_colon by (rule dropWhile_run)
  show ?thesis using 1 2 3 4 assms(1,2) by (simp add: matched_def)
qed

lemma matched_elim:
  assumes "matched url"
  shows "\<exists>a b rest. url = a @ ''+'' @ b @ ''://'' @ rest \<and> a \<noteq> [] \<and> b \<noteq> [] \<and>
            list_all is_word a \<and> list_all is_word b"
proof -
  from assms obtain r where a: "takeWhile is_word url \<noteq> []"
    and d: "dropWhile is_word url = CHR ''+'' # r"
    and b: "takeWhile is_word r \<noteq> []" and p: "prefix ''://'' (dropWhile is_word r)"
    by (auto simp: matched_def split: list.splits)
  from p obtain rest where rest: "dropWhile is_word r = ''://'' @ rest"
    by (auto simp: prefix_def)
  have "url = takeWhile is_word url @ dropWhile is_word url" by simp
  also have "\<dots> = takeWhile is_word url @ ''+'' @ (takeWhile is_word r @ dropWhile is_word r)"
    using d by simp
  finally have "url = takeWhile is_word url @ ''+'' @ takeWhile is_word r @ ''://'' @ rest"
    using rest by simp
  moreover have "list_all is_word (takeWhile is_word url)" "list_all is_word (takeWhile is_word r)"
    by (simp_all add: list_all_iff) (meson set_takeWhileD)+
  ultimately show ?thesis using a b by blast
qed

text \<open>
  \<open>matched\<close> is the pattern \<open>^\w+[+]\w+://\<close>: a non-empty word, a plus sign, a
  non-empty word, then \<open>://\<close>, then anything.
\<close>

lemma matched_iff:
  "matched url \<longleftrightarrow> (\<exists>a b rest. url = a @ ''+'' @ b @ ''://'' @ rest \<and> a \<noteq> [] \<and> b \<noteq> [] \<and>
            list_all is_word a \<and> list_all is_word b)"
  using matched_intro matched_elim by blast

section \<open>Sorting\<close>















section \<open>Properties of Install\<close>

text \<open>
  Claim C4. When the selector parses as an exact version (the part before \<open>=\<close> of a
  pin, or the whole selector) and the list of installed versions has a version equal to
  it, \<open>Install\<close> returns that version's string with no error; the world is unchanged: no
  request was sent, no command was run, no file was written.
\<close>

theorem C4_installed_version_returned_at_once:
  assumes "ParseVersion c (if strings_Contains selector CHR ''=''
                           then fst (strings_SplitN2 selector CHR ''='') else selector) = Inr ver"
    and "Ls c (fs w) = Inr local"
    and "\<exists>v \<in> set local. Equals c ver v"
  shows "Install c s selector w = (Ret (VString c ver, None), w)"
proof (cases "strings_Contains selector CHR ''=''")
  case True
  with assms show ?thesis
    by (simp add: Install_def Install_prepare_def Install_select_def Install_parse_def
        Install_installed_def Let_def)
next
  case False
  with assms show ?thesis
    by (simp add: Install_def Install_prepare_def Install_select_def Install_parse_def
        Install_installed_def parsed_version_def)
qed

text \<open>The example of C4: selector \<open>1.8.0\<close> with 1.8.0 installed.\<close>

theorem C4_witness:
  "Install (example_collaborators [v180] example_catalog) example_sys ''1.8.0'' example_world
     = (Ret (''1.8.0'', None), example_world)"
  using C4_installed_version_returned_at_once
    [of "example_collaborators [v180] example_catalog" "''1.8.0''" v180 example_world "[v180]" example_sys]
  by (simp add: semver_eval strings_Contains_def)

text \<open>
  Claim C6. When the source string chosen for the version does not have the form
  word, \<open>+\<close>, word, \<open>://\<close>, \<open>Install\<close> fails with the qualifier error, and the world is
  unchanged: no temporary file was created and no request was sent.
\<close>

theorem C6_unqualified_source_fails_before_download:
  assumes "Install_select c selector (fs w) = Inr (ver, url)"
    and "\<not> (\<exists>a b rest. url = a @ ''+'' @ b @ ''://'' @ rest \<and> a \<noteq> [] \<and> b \<noteq> [] \<and>
            list_all is_word a \<and> list_all is_word b)"
  shows "Install c s selector w =
           (Ret ([], Some (Err ''URL must contain qualifier, e.g. tgz+http://...'')), w)"
proof -
  from assms(2) have "\<not> matched url" by (simp add: matched_iff)
  then have "Install_source url = Ret (Inl (Err ''URL must contain qualifier, e.g. tgz+http://...''))"
    by (simp add: Install_source_def)
  with assms(1) show ?thesis by (simp add: Install_def Install_prepare_def)
qed

text \<open>The example of C6: a pin whose URL has no \<open>tgz+\<close> in front.\<close>

theorem C6_witness:
  "Install (example_collaborators [] example_catalog) example_sys
       ''1.8.0=http://host/file.tgz'' example_world
     = (Ret ([], Some (Err ''URL must contain qualifier, e.g. tgz+http://...'')), example_world)"
proof -
  have sel: "Install_select (example_collaborators [] example_catalog)
       ''1.8.0=http://host/file.tgz'' (fs example_world) = Inr (v180, ''http://host/file.tgz'')"
    by (simp add: select_eval semver_eval)
  have "\<not> matched ''http://host/file.tgz''"
    by (simp add: matched_def is_word_def)
  then have no: "\<not> (\<exists>a b rest. ''http://host/file.tgz'' = a @ ''+'' @ b @ ''://'' @ rest \<and> a \<noteq> [] \<and>
       b \<noteq> [] \<and> list_all is_word a \<and> list_all is_word b)"
    using matched_iff [of "''http://host/file.tgz''"] by blast
  show ?thesis
    by (rule C6_unqualified_source_fails_before_download [OF sel no])
qed











lemma example_tgz_prepare:
  "Install_prepare (example_collaborators [] example_catalog) example_sys
      ''1.8.0=tgz+file:///tmp/fake.tgz'' example_world
     = (Ret (Dispatch v180 ''/tmp/fake.tgz'' ''tgz'' False), example_world)"
  by (simp add: Install_prepare_def select_eval source_eval semver_eval)

lemma example_tgz_platform:
  "fst (Install_platform example_sys ''1.8.0'' ''/tmp/fake.tgz'' ''tgz'' example_world) = Some java_not_found"
  "fs (snd (Install_platform example_sys ''1.8.0'' ''/tmp/fake.tgz'' ''tgz'' example_world))
     (path_key ''/home/u/.jabba/jdk/1.8.0/README'') = None"
  "fs (snd (Install_platform example_sys ''1.8.0'' ''/tmp/fake.tgz'' ''tgz'' example_world))
     (path_key ''/tmp/fake.tgz'') = Some (File ''tgz'' 420)"
  by (simp_all add: platform_eval Let_def os_eval path_eval)





lemma Install_after_prepare:
  assumes "Install_prepare c s selector w = (Ret (Dispatch ver file fileType del), w1)"
  shows "Install c s selector w =
     (Ret (VString c ver, fst (Install_platform s (VString c ver) file fileType w1)),
      snd (Install_dispatch s (VString c ver) file fileType del w1))"
  using assms by (simp add: Install_def Install_dispatch_def split: prod.splits)



text \<open>
  Claim C10. Once \<open>Install\<close> has reached the switch on the operating system it returns
  the string of the chosen version as its first value, whatever error the platform
  installer gives, the error of an unsupported operating system included. When it
  returns before the switch, its first value is the empty string together with an error,
  or the string of the installed version with no error.
\<close>

theorem C10_version_string_returned_from_dispatch:
  "(\<forall>ver file fileType del w1.
      Install_prepare c s selector w = (Ret (Dispatch ver file fileType del), w1) \<longrightarrow>
        (\<exists>w'. Install c s selector w =
            (Ret (VString c ver, fst (Install_platform s (VString c ver) file fileType w1)), w'))
        \<and> (GOOS s \<noteq> ''darwin'' \<and> GOOS s \<noteq> ''linux'' \<longrightarrow>
             Install c s selector w =
               (Ret (VString c ver, Some (Err (GOOS s @ '' OS is not supported''))), w1)))
   \<and> (\<forall>r w1.
      Install_prepare c s selector w = (Ret (Return r), w1) \<longrightarrow>
        Install c s selector w = (Ret r, w1)
        \<and> ((\<exists>e. r = ([], Some e)) \<or> (\<exists>v. r = (VString c v, None))))"
proof (intro conjI allI impI)
  fix ver src fileType del w1
  assume p: "Install_prepare c s selector w = (Ret (Dispatch ver src fileType del), w1)"
  show "\<exists>w'. Install c s selector w =
            (Ret (VString c ver, fst (Install_platform s (VString c ver) src fileType w1)), w')"
    using Install_after_prepare [OF p] by blast
  assume "GOOS s \<noteq> ''darwin'' \<and> GOOS s \<noteq> ''linux''"
  then show "Install c s selector w =
               (Ret (VString c ver, Some (Err (GOOS s @ '' OS is not supported''))), w1)"
    using p by (simp add: Install_def Install_dispatch_def Install_platform_def)
next
  fix r w1
  assume p: "Install_prepare c s selector w = (Ret (Return r), w1)"
  then show "Install c s selector w = (Ret r, w1)" by (simp add: Install_def)
  from p show "(\<exists>e. r = ([], Some e)) \<or> (\<exists>v. r = (VString c v, None))"
    by (auto simp: Install_prepare_def Install_select_def Install_installed_def
        split: sum.splits prod.splits option.splits outcome.splits if_splits)
qed

text \<open>The example of C10: the failed validation still returns \<open>1.8.0\<close>.\<close>

theorem C10_witness:
  "fst (Install (example_collaborators [] example_catalog) example_sys
         ''1.8.0=tgz+file:///tmp/fake.tgz'' example_world) = Ret (''1.8.0'', Some java_not_found)"
proof -
  let ?c = "example_collaborators [] example_catalog"
  have str: "VString ?c v180 = ''1.8.0''" by (simp add: semver_eval)
  from C10_version_string_returned_from_dispatch
    [of ?c example_sys "''1.8.0=tgz+file:///tmp/fake.tgz''" example_world]
    example_tgz_prepare
  obtain w' where "Install ?c example_sys ''1.8.0=tgz+file:///tmp/fake.tgz'' example_world =
      (Ret (VString ?c v180, fst (Install_platform example_sys (VString ?c v180) ''/tmp/fake.tgz'' ''tgz'' example_world)), w')"
    by blast
  then show ?thesis using example_tgz_platform(1) by (simp add: str)
qed

section \<open>Properties of download\<close>







section \<open>Cleanup of the staged file\<close>











section \<open>Extraction of the example archives\<close>
















end
